theory Spec2Isabelle
  imports Complex_Main "HOL-Library.Char_ord" "HOL-Library.List_Lexorder" "HOL-Library.Log_Nat"
begin

text \<open>
  A model of \<^verbatim>\<open>dashboard.py\<close>: the \<^verbatim>\<open>SystemdDashboard\<close> engine and the request
  handlers that the stated properties are about.  External tools, the clock and the
  files the program reads are inputs of the model; every exception the program can meet
  is a value.
\<close>

section \<open>Python strings\<close>

text \<open>
  A \<^verbatim>\<open>str\<close> is a list of characters.  The program reads the output of \<^verbatim>\<open>systemctl\<close>,
  \<^verbatim>\<open>df\<close>, \<^verbatim>\<open>free\<close> and \<^verbatim>\<open>/proc/meminfo\<close>; the text is taken to be ASCII, so
  \<^verbatim>\<open>isdigit\<close> holds of the ten decimal digits only and \<^verbatim>\<open>isspace\<close> of the ASCII
  whitespace characters (tab, line feed, vertical tab, form feed, carriage return, the
  four separators 0x1C to 0x1F, and space).
\<close>

definition is_digit :: "char \<Rightarrow> bool" where
  "is_digit c \<longleftrightarrow> c \<in> set ''0123456789''"

definition digit_val :: "char \<Rightarrow> nat" where
  "digit_val c = length (takeWhile (\<lambda>d. d \<noteq> c) ''0123456789'')"

definition digit_char :: "nat \<Rightarrow> char" where
  "digit_char n = ''0123456789'' ! n"

text \<open>\<^verbatim>\<open>s.isdigit()\<close>: non-empty and digits only.\<close>

definition py_isdigit :: "string \<Rightarrow> bool" where
  "py_isdigit s \<longleftrightarrow> s \<noteq> [] \<and> list_all is_digit s"

text \<open>
  \<^verbatim>\<open>int(s)\<close> for a string that passed \<^verbatim>\<open>isdigit\<close>: its decimal value.  (The program
  calls \<^verbatim>\<open>int\<close> on such strings only; the interpreter's optional cap on the number of
  digits is not modelled.)
\<close>

definition int_of_digits :: "string \<Rightarrow> int" where
  "int_of_digits s = foldl (\<lambda>a c. 10 * a + int (digit_val c)) 0 s"

text \<open>\<^verbatim>\<open>str(n)\<close> for an \<^verbatim>\<open>int\<close>.\<close>

fun show_nat :: "nat \<Rightarrow> string" where
  "show_nat n = (if n < 10 then [digit_char n] else show_nat (n div 10) @ [digit_char (n mod 10)])"

declare show_nat.simps [simp del]

definition show_int :: "int \<Rightarrow> string" where
  "show_int i = (if i < 0 then CHR ''-'' # show_nat (nat (- i)) else show_nat (nat i))"

definition py_isspace :: "char \<Rightarrow> bool" where
  "py_isspace c \<longleftrightarrow>
     c \<in> set [CHR 0x09, CHR 0x0A, CHR 0x0B, CHR 0x0C, CHR 0x0D,
               CHR 0x1C, CHR 0x1D, CHR 0x1E, CHR 0x1F, CHR '' '']"

text \<open>\<^verbatim>\<open>s.strip()\<close>\<close>

definition py_strip :: "string \<Rightarrow> string" where
  "py_strip s = rev (dropWhile py_isspace (rev (dropWhile py_isspace s)))"

text \<open>\<^verbatim>\<open>s.rstrip(c)\<close> for a one-character argument: every trailing \<open>c\<close> goes.\<close>

definition py_rstrip_char :: "char \<Rightarrow> string \<Rightarrow> string" where
  "py_rstrip_char c s = rev (dropWhile (\<lambda>x. x = c) (rev s))"

text \<open>\<^verbatim>\<open>s.split()\<close>: the maximal runs of non-whitespace characters.\<close>

fun split_ws :: "string \<Rightarrow> string \<Rightarrow> string list" where
  "split_ws cur [] = (if cur = [] then [] else [cur])"
| "split_ws cur (c # cs) =
     (if py_isspace c then (if cur = [] then split_ws [] cs else cur # split_ws [] cs)
      else split_ws (cur @ [c]) cs)"

definition py_split_ws :: "string \<Rightarrow> string list" where
  "py_split_ws s = split_ws [] s"

text \<open>\<^verbatim>\<open>s.split(sep)\<close> for a one-character separator: never the empty list.\<close>

fun split_on :: "char \<Rightarrow> string \<Rightarrow> string \<Rightarrow> string list" where
  "split_on sep cur [] = [cur]"
| "split_on sep cur (c # cs) =
     (if c = sep then cur # split_on sep [] cs else split_on sep (cur @ [c]) cs)"

definition py_split :: "char \<Rightarrow> string \<Rightarrow> string list" where
  "py_split sep s = split_on sep [] s"

text \<open>
  \<^verbatim>\<open>key, value = line.split(sep, 1)\<close> for a line that contains \<open>sep\<close>: the text before
  the first separator and the text after it.
\<close>

definition split_first :: "char \<Rightarrow> string \<Rightarrow> string \<times> string" where
  "split_first sep s = (takeWhile (\<lambda>c. c \<noteq> sep) s, tl (dropWhile (\<lambda>c. c \<noteq> sep) s))"

text \<open>\<^verbatim>\<open>" ".join(parts)\<close>\<close>

fun join_space :: "string list \<Rightarrow> string" where
  "join_space [] = []"
| "join_space [x] = x"
| "join_space (x # y # ys) = x @ '' '' @ join_space (y # ys)"

definition py_endswith :: "string \<Rightarrow> char \<Rightarrow> bool" where
  "py_endswith s c \<longleftrightarrow> s \<noteq> [] \<and> last s = c"

section \<open>Exceptions and external commands\<close>

text \<open>
  The exceptions the program can meet, each with the text \<^verbatim>\<open>str(e)\<close> gives.
  \<open>FileNotFoundError\<close> is an \<open>OSError\<close>, and \<open>TimeoutExpired\<close> a \<open>SubprocessError\<close>, as
  in Python; \<open>OtherException\<close> stands for every class the program names nowhere.
\<close>

datatype exn =
    TimeoutExpired string
  | SubprocessError string
  | FileNotFoundError string
  | OSError string
  | ValueError string
  | OverflowError string
  | ZeroDivisionError string
  | AttributeError string
  | OtherException string

fun exn_str :: "exn \<Rightarrow> string" where
  "exn_str (TimeoutExpired m) = m"
| "exn_str (SubprocessError m) = m"
| "exn_str (FileNotFoundError m) = m"
| "exn_str (OSError m) = m"
| "exn_str (ValueError m) = m"
| "exn_str (OverflowError m) = m"
| "exn_str (ZeroDivisionError m) = m"
| "exn_str (AttributeError m) = m"
| "exn_str (OtherException m) = m"

fun is_timeout :: "exn \<Rightarrow> bool" where
  "is_timeout (TimeoutExpired m) = True"
| "is_timeout e = False"

text \<open>
  What \<^verbatim>\<open>subprocess.run(argv, capture_output=True, text=True, timeout=t)\<close> does: it
  returns the exit code with the captured output, or raises.  The environment is a
  function from the command line and the timeout to that outcome.
\<close>

datatype run_result = Completed int string string | Raises exn

type_synonym runner = "string list \<Rightarrow> nat \<Rightarrow> run_result"


section \<open>Python floats\<close>

text \<open>
  A \<^verbatim>\<open>float\<close> is an IEEE 754 binary64 number.  A finite one is \<open>Float m e\<close>, the
  number \<open>m * 2 ^ e\<close>, kept in the form the hardware has: \<open>2 ^ 52 \<le> \<bar>m\<bar> < 2 ^ 53\<close> with
  \<open>- 1074 \<le> e \<le> 971\<close> for a normal number, \<open>\<bar>m\<bar> < 2 ^ 52\<close> with \<open>e = - 1074\<close> for a
  subnormal one, and \<open>Float 0 0\<close> for zero (the sign of a zero is not kept: nothing the
  program shows depends on it).  Every arithmetic result is the exact result rounded to
  the nearest such number, ties to the even mantissa, and to an infinity from
  \<open>2 ^ 1024\<close> on.
\<close>

datatype pyfloat = Float int int | PInf | NInf | NaN

text \<open>\<open>a / b\<close> rounded to the nearest integer, ties to even (\<open>0 \<le> a\<close>, \<open>0 < b\<close>).\<close>

definition round_half_even :: "int \<Rightarrow> int \<Rightarrow> int" where
  "round_half_even a b =
     (let q = a div b; r = a mod b
      in if 2 * r < b then q else if b < 2 * r then q + 1 else if even q then q else q + 1)"

text \<open>The \<open>k\<close> with \<open>2 ^ k \<le> n / d < 2 ^ (k + 1)\<close>, for \<open>0 < n\<close> and \<open>0 < d\<close>.\<close>

definition floor_log2 :: "int \<Rightarrow> int \<Rightarrow> int" where
  "floor_log2 n d =
     (let k = bitlen n - bitlen d
      in if (if 0 \<le> k then d * 2 ^ nat k \<le> n else d \<le> n * 2 ^ nat (- k)) then k else k - 1)"

text \<open>\<open>n / d * 2 ^ t\<close> rounded to the nearest integer, ties to even.\<close>

definition scaled_round :: "int \<Rightarrow> int \<Rightarrow> int \<Rightarrow> int" where
  "scaled_round n d t =
     (if 0 \<le> t then round_half_even (n * 2 ^ nat t) d else round_half_even n (d * 2 ^ nat (- t)))"

text \<open>The float nearest to \<open>n / d * 2 ^ s\<close>, for \<open>0 < n\<close> and \<open>0 < d\<close>.\<close>

definition round_pos :: "int \<Rightarrow> int \<Rightarrow> int \<Rightarrow> pyfloat" where
  "round_pos n d s =
     (let e = max (floor_log2 n d + s - 52) (- 1074);
          m = scaled_round n d (s - e);
          e' = (if m = 2 ^ 53 then e + 1 else e);
          m' = (if m = 2 ^ 53 then 2 ^ 52 else m)
      in if m = 0 then Float 0 0 else if 971 < e' then PInf else Float m' e')"

fun fneg :: "pyfloat \<Rightarrow> pyfloat" where
  "fneg (Float m e) = Float (- m) e"
| "fneg PInf = NInf"
| "fneg NInf = PInf"
| "fneg NaN = NaN"

text \<open>The float nearest to \<open>n / d * 2 ^ s\<close>, for any \<open>n\<close> and \<open>0 < d\<close>.\<close>

definition round_double :: "int \<Rightarrow> int \<Rightarrow> int \<Rightarrow> pyfloat" where
  "round_double n d s =
     (if n = 0 then Float 0 0
      else if 0 < n then round_pos n d s
      else fneg (round_pos (- n) d s))"

text \<open>\<^verbatim>\<open>float(i)\<close> for an \<^verbatim>\<open>int\<close>, also where an \<^verbatim>\<open>int\<close> meets a float in arithmetic.\<close>

definition float_of_int :: "int \<Rightarrow> exn + pyfloat" where
  "float_of_int i =
     (case round_double i 1 0 of
        Float m e \<Rightarrow> Inr (Float m e)
      | _ \<Rightarrow> Inl (OverflowError ''int too large to convert to float''))"

text \<open>The float of a literal such as \<^verbatim>\<open>1024.0\<close>, \<^verbatim>\<open>1024\<close> or \<^verbatim>\<open>100\<close>.\<close>

definition float_lit :: "int \<Rightarrow> pyfloat" where
  "float_lit k = round_double k 1 0"

fun is_zero :: "pyfloat \<Rightarrow> bool" where
  "is_zero (Float m e) = (m = 0)"
| "is_zero x = False"

fun is_negative :: "pyfloat \<Rightarrow> bool" where
  "is_negative (Float m e) = (m < 0)"
| "is_negative NInf = True"
| "is_negative x = False"

text \<open>\<^verbatim>\<open>x * y\<close> on floats.\<close>

fun fmul :: "pyfloat \<Rightarrow> pyfloat \<Rightarrow> pyfloat" where
  "fmul (Float m1 e1) (Float m2 e2) = round_double (m1 * m2) 1 (e1 + e2)"
| "fmul NaN y = NaN"
| "fmul x NaN = NaN"
| "fmul x y =
     (if is_zero x \<or> is_zero y then NaN
      else if is_negative x = is_negative y then PInf else NInf)"

text \<open>\<^verbatim>\<open>x / y\<close> on floats: a zero divisor raises.\<close>

fun fdiv :: "pyfloat \<Rightarrow> pyfloat \<Rightarrow> exn + pyfloat" where
  "fdiv (Float m1 e1) (Float m2 e2) =
     (if m2 = 0 then Inl (ZeroDivisionError ''float division by zero'')
      else if 0 < m2 then Inr (round_double m1 m2 (e1 - e2))
      else Inr (round_double (- m1) (- m2) (e1 - e2)))"
| "fdiv NaN y = (if is_zero y then Inl (ZeroDivisionError ''float division by zero'') else Inr NaN)"
| "fdiv x NaN = Inr NaN"
| "fdiv (Float m e) y = Inr (Float 0 0)"
| "fdiv x (Float m e) =
     (if m = 0 then Inl (ZeroDivisionError ''float division by zero'')
      else Inr (if is_negative x = (m < 0) then PInf else NInf))"
| "fdiv x y = Inr NaN"

text \<open>\<^verbatim>\<open>a / b\<close> on two \<^verbatim>\<open>int\<close>s: the correctly rounded quotient.\<close>

definition int_truediv :: "int \<Rightarrow> int \<Rightarrow> exn + pyfloat" where
  "int_truediv a b =
     (if b = 0 then Inl (ZeroDivisionError ''division by zero'')
      else (case (if 0 < b then round_double a b 0 else round_double (- a) (- b) 0) of
              Float m e \<Rightarrow> Inr (Float m e)
            | _ \<Rightarrow> Inl (OverflowError ''integer division result too large for a float'')))"

text \<open>\<^verbatim>\<open>x < k\<close> and \<^verbatim>\<open>x > k\<close> for a float and an integer-valued constant: exact.\<close>

fun float_less_int :: "pyfloat \<Rightarrow> int \<Rightarrow> bool" where
  "float_less_int (Float m e) k = (if 0 \<le> e then m * 2 ^ nat e < k else m < k * 2 ^ nat (- e))"
| "float_less_int NInf k = True"
| "float_less_int x k = False"

fun float_greater_int :: "pyfloat \<Rightarrow> int \<Rightarrow> bool" where
  "float_greater_int (Float m e) k = (if 0 \<le> e then k < m * 2 ^ nat e else k * 2 ^ nat (- e) < m)"
| "float_greater_int PInf k = True"
| "float_greater_int x k = False"

text \<open>\<^verbatim>\<open>int(x)\<close>: truncation towards zero; an infinity and a NaN raise.\<close>

fun int_of_float :: "pyfloat \<Rightarrow> exn + int" where
  "int_of_float (Float m e) =
     Inr (if 0 \<le> e then m * 2 ^ nat e
          else if 0 \<le> m then m div 2 ^ nat (- e) else - ((- m) div 2 ^ nat (- e)))"
| "int_of_float NaN = Inl (ValueError ''cannot convert float NaN to integer'')"
| "int_of_float x = Inl (OverflowError ''cannot convert float infinity to integer'')"

text \<open>
  \<^verbatim>\<open>f"{x:.1f}"\<close>: the decimal expansion of the float, correctly rounded to one digit after
  the point (ties to even).  \<open>tenths\<close> is the number of tenths.
\<close>

definition tenths :: "int \<Rightarrow> int \<Rightarrow> nat" where
  "tenths m e = nat (if 0 \<le> e then 10 * \<bar>m\<bar> * 2 ^ nat e else round_half_even (10 * \<bar>m\<bar>) (2 ^ nat (- e)))"

definition render_tenths :: "nat \<Rightarrow> string" where
  "render_tenths t = show_nat (t div 10) @ ''.'' @ [digit_char (t mod 10)]"

fun format_1f :: "pyfloat \<Rightarrow> string" where
  "format_1f (Float m e) = (if m < 0 then ''-'' else []) @ render_tenths (tenths m e)"
| "format_1f PInf = ''inf''"
| "format_1f NInf = ''-inf''"
| "format_1f NaN = ''nan''"

subsection \<open>\<^verbatim>\<open>float(s)\<close> for a string\<close>

text \<open>
  The accepted strings, after \<^verbatim>\<open>strip()\<close>: an optional sign, then \<^verbatim>\<open>inf\<close>,
  \<^verbatim>\<open>infinity\<close> or \<^verbatim>\<open>nan\<close> in any case, or a decimal number: digits with an optional
  point (digits on at least one side of it) and an optional exponent \<^verbatim>\<open>e\<close> or \<^verbatim>\<open>E\<close>,
  sign, digits.  Digits may be grouped by single underscores.  The value is the decimal
  number rounded to the nearest float.
\<close>

definition lower_ascii :: "char \<Rightarrow> char" where
  "lower_ascii c =
     (case map_of (zip ''ABCDEFGHIJKLMNOPQRSTUVWXYZ'' ''abcdefghijklmnopqrstuvwxyz'') c of
        Some d \<Rightarrow> d | None \<Rightarrow> c)"

fun take_digitpart :: "string \<Rightarrow> string \<times> string" where
  "take_digitpart [] = ([], [])"
| "take_digitpart (c # cs) =
     (if is_digit c then
        (if cs \<noteq> [] \<and> hd cs = CHR ''_'' \<and> tl cs \<noteq> [] \<and> is_digit (hd (tl cs))
         then (c # fst (take_digitpart (tl cs)), snd (take_digitpart (tl cs)))
         else (c # fst (take_digitpart cs), snd (take_digitpart cs)))
      else ([], c # cs))"

text \<open>An optional sign: whether it was a minus, and the rest.\<close>

definition take_sign :: "string \<Rightarrow> bool \<times> string" where
  "take_sign s =
     (if s \<noteq> [] \<and> hd s = CHR ''-'' then (True, tl s)
      else if s \<noteq> [] \<and> hd s = CHR ''+'' then (False, tl s)
      else (False, s))"

text \<open>A decimal number as \<open>(D, E)\<close>, standing for \<open>D * 10 ^ E\<close>.\<close>

definition parse_decimal :: "string \<Rightarrow> (int \<times> int) option" where
  "parse_decimal s =
     (let ip = fst (take_digitpart s);
          r1 = snd (take_digitpart s);
          dot = (r1 \<noteq> [] \<and> hd r1 = CHR ''.'');
          fp = (if dot then fst (take_digitpart (tl r1)) else []);
          r2 = (if dot then snd (take_digitpart (tl r1)) else r1);
          D = int_of_digits (ip @ fp)
      in if ip = [] \<and> fp = [] then None
         else if r2 = [] then Some (D, - int (length fp))
         else if hd r2 = CHR ''e'' \<or> hd r2 = CHR ''E'' then
           (let neg = fst (take_sign (tl r2));
                ex = fst (take_digitpart (snd (take_sign (tl r2))));
                r3 = snd (take_digitpart (snd (take_sign (tl r2))))
            in if r3 = [] \<and> ex \<noteq> []
               then Some (D, (if neg then - int_of_digits ex else int_of_digits ex)
                             - int (length fp))
               else None)
         else None)"

definition py_float :: "string \<Rightarrow> exn + pyfloat" where
  "py_float s =
     (let neg = fst (take_sign (py_strip s));
          body = snd (take_sign (py_strip s));
          word = map lower_ascii body
      in if word = ''inf'' \<or> word = ''infinity'' then Inr (if neg then NInf else PInf)
         else if word = ''nan'' then Inr NaN
         else (case parse_decimal body of
                 None \<Rightarrow> Inl (ValueError ''could not convert string to float'')
               | Some (D, E) \<Rightarrow>
                   Inr (if 0 \<le> E then round_double ((if neg then - D else D) * 10 ^ nat E) 1 0
                        else round_double (if neg then - D else D) (10 ^ nat (- E)) 0)))"

section \<open>Metric normalizer\<close>

subsection \<open>\<^verbatim>\<open>_format_bytes\<close>\<close>

text \<open>
  \<^verbatim>\<open>bytes_val\<close> starts as the \<^verbatim>\<open>int\<close> the caller passes and becomes a float at the
  first division.  The three operations the loop applies to it:
  \<^verbatim>\<open>bytes_val < 1024.0\<close>, \<^verbatim>\<open>bytes_val /= 1024.0\<close> and \<^verbatim>\<open>f"{bytes_val:.1f}"\<close> (which
  turns an \<^verbatim>\<open>int\<close> into a float first).
\<close>

datatype pynum = PInt int | PFloat pyfloat

fun num_less_1024 :: "pynum \<Rightarrow> bool" where
  "num_less_1024 (PInt i) = (i < 1024)"
| "num_less_1024 (PFloat x) = float_less_int x 1024"

fun num_div_1024 :: "pynum \<Rightarrow> exn + pynum" where
  "num_div_1024 (PInt i) =
     (case float_of_int i of
        Inl err \<Rightarrow> Inl err
      | Inr x \<Rightarrow> (case fdiv x (float_lit 1024) of Inl err \<Rightarrow> Inl err | Inr y \<Rightarrow> Inr (PFloat y)))"
| "num_div_1024 (PFloat x) =
     (case fdiv x (float_lit 1024) of Inl err \<Rightarrow> Inl err | Inr y \<Rightarrow> Inr (PFloat y))"

fun num_format_1f :: "pynum \<Rightarrow> exn + string" where
  "num_format_1f (PInt i) =
     (case float_of_int i of Inl err \<Rightarrow> Inl err | Inr x \<Rightarrow> Inr (format_1f x))"
| "num_format_1f (PFloat x) = Inr (format_1f x)"

text \<open>
  The \<^verbatim>\<open>for unit in ["B", "KB", "MB", "GB"]\<close> loop; the empty list is the code after
  the loop.
\<close>

fun format_loop :: "pynum \<Rightarrow> string list \<Rightarrow> exn + string" where
  "format_loop v [] =
     (case num_format_1f v of Inl err \<Rightarrow> Inl err | Inr s \<Rightarrow> Inr (s @ ''TB''))"
| "format_loop v (u # us) =
     (if num_less_1024 v
      then (case num_format_1f v of Inl err \<Rightarrow> Inl err | Inr s \<Rightarrow> Inr (s @ u))
      else (case num_div_1024 v of Inl err \<Rightarrow> Inl err | Inr v' \<Rightarrow> format_loop v' us))"

definition format_bytes :: "int \<Rightarrow> exn + string" where
  "format_bytes bytes_val = format_loop (PInt bytes_val) [''B'', ''KB'', ''MB'', ''GB'']"

subsection \<open>\<^verbatim>\<open>_calculate_uptime\<close>\<close>

text \<open>
  The regular-expression search, \<^verbatim>\<open>strptime\<close> and \<^verbatim>\<open>datetime.now()\<close> belong to the
  environment: for a timestamp text the clock says that no date was found in it, that
  the date found is not a valid one (\<^verbatim>\<open>strptime\<close> raises), or the float
  \<^verbatim>\<open>(datetime.now() - start_time).total_seconds()\<close>.
\<close>

datatype ts_parse = NoMatch | StrptimeError | Elapsed pyfloat

type_synonym clock = "string \<Rightarrow> ts_parse"

text \<open>
  \<^verbatim>\<open>int(x // k)\<close> and \<^verbatim>\<open>int((x % k1) // k2)\<close> for a float \<open>x\<close> and positive integer
  constants.  For the elapsed times a difference of two \<^verbatim>\<open>datetime\<close>s can be (below
  \<open>2 ^ 39\<close> seconds) the float operations \<^verbatim>\<open>//\<close> and \<^verbatim>\<open>%\<close> are exact, so they are
  given by the exact quotient and remainder.  For an infinity or a NaN the quotient is
  a NaN, which \<^verbatim>\<open>int\<close> refuses.
\<close>

fun int_floordiv :: "pyfloat \<Rightarrow> int \<Rightarrow> exn + int" where
  "int_floordiv (Float m e) k =
     Inr (if 0 \<le> e then (m * 2 ^ nat e) div k else m div (k * 2 ^ nat (- e)))"
| "int_floordiv x k = Inl (ValueError ''cannot convert float NaN to integer'')"

fun int_mod_floordiv :: "pyfloat \<Rightarrow> int \<Rightarrow> int \<Rightarrow> exn + int" where
  "int_mod_floordiv (Float m e) k1 k2 =
     Inr (if 0 \<le> e then ((m * 2 ^ nat e) mod k1) div k2
          else (m mod (k1 * 2 ^ nat (- e))) div (k2 * 2 ^ nat (- e)))"
| "int_mod_floordiv x k1 k2 = Inl (ValueError ''cannot convert float NaN to integer'')"

text \<open>The \<^verbatim>\<open>if uptime_seconds < 60: ... else: ...\<close> chain.\<close>

definition uptime_text :: "pyfloat \<Rightarrow> exn + string" where
  "uptime_text uptime_seconds =
     (if float_less_int uptime_seconds 60 then
        (case int_of_float uptime_seconds of
           Inl err \<Rightarrow> Inl err
         | Inr s \<Rightarrow> Inr (show_int s @ ''s''))
      else if float_less_int uptime_seconds 3600 then
        (case int_floordiv uptime_seconds 60 of
           Inl err \<Rightarrow> Inl err
         | Inr m \<Rightarrow> Inr (show_int m @ ''m''))
      else if float_less_int uptime_seconds 86400 then
        (case int_floordiv uptime_seconds 3600 of
           Inl err \<Rightarrow> Inl err
         | Inr hours \<Rightarrow>
             (case int_mod_floordiv uptime_seconds 3600 60 of
                Inl err \<Rightarrow> Inl err
              | Inr minutes \<Rightarrow> Inr (show_int hours @ ''h '' @ show_int minutes @ ''m'')))
      else
        (case int_floordiv uptime_seconds 86400 of
           Inl err \<Rightarrow> Inl err
         | Inr days \<Rightarrow>
             (case int_mod_floordiv uptime_seconds 86400 3600 of
                Inl err \<Rightarrow> Inl err
              | Inr hours \<Rightarrow> Inr (show_int days @ ''d '' @ show_int hours @ ''h''))))"

definition calculate_uptime :: "clock \<Rightarrow> string \<Rightarrow> string" where
  "calculate_uptime clk timestamp_str =
     (if timestamp_str = [] \<or> timestamp_str \<in> set ['''', ''n/a''] then ''N/A''
      else (case clk timestamp_str of
              NoMatch \<Rightarrow> ''N/A''
            | StrptimeError \<Rightarrow> ''N/A''
            | Elapsed uptime_seconds \<Rightarrow>
                (case uptime_text uptime_seconds of Inl err \<Rightarrow> ''N/A'' | Inr s \<Rightarrow> s)))"

subsection \<open>\<^verbatim>\<open>_parse_memory_value\<close>\<close>

definition parse_memory_value :: "string \<Rightarrow> exn + pyfloat" where
  "parse_memory_value v =
     (if py_endswith v CHR ''T'' then
        (case py_float (butlast v) of
           Inl err \<Rightarrow> Inl err
         | Inr x \<Rightarrow> Inr (fmul (fmul (fmul x (float_lit 1024)) (float_lit 1024)) (float_lit 1024)))
      else if py_endswith v CHR ''G'' then
        (case py_float (butlast v) of
           Inl err \<Rightarrow> Inl err
         | Inr x \<Rightarrow> Inr (fmul (fmul x (float_lit 1024)) (float_lit 1024)))
      else if py_endswith v CHR ''M'' then
        (case py_float (butlast v) of
           Inl err \<Rightarrow> Inl err
         | Inr x \<Rightarrow> Inr (fmul x (float_lit 1024)))
      else if py_endswith v CHR ''K'' then py_float (butlast v)
      else
        (case py_float v of
           Inl err \<Rightarrow> Inl err
         | Inr x \<Rightarrow> fdiv x (float_lit 1024)))"

section \<open>Unit status collector\<close>

text \<open>The dictionary \<^verbatim>\<open>get_service_status\<close> returns, one field for each key.\<close>

record service_info =
  si_name :: string
  si_status :: string
  si_active :: bool
  si_state :: string
  si_memory :: string
  si_uptime :: string
  si_main_pid :: string
  si_load_state :: string
  si_unit_file_state :: string

text \<open>The body of the loop over the lines of \<^verbatim>\<open>systemctl show\<close>.\<close>

definition apply_property :: "clock \<Rightarrow> string \<Rightarrow> service_info \<Rightarrow> exn + service_info" where
  "apply_property clk line info =
     (if CHR ''='' \<in> set line then
        (let key = fst (split_first CHR ''='' line);
             val = snd (split_first CHR ''='' line)
         in if key = ''MemoryCurrent'' \<and> val \<noteq> ''[not set]'' \<and> py_isdigit val then
              (if 0 < int_of_digits val
               then (case format_bytes (int_of_digits val) of
                       Inl err \<Rightarrow> Inl err
                     | Inr s \<Rightarrow> Inr (info\<lparr>si_memory := s\<rparr>))
               else Inr info)
            else if key = ''MainPID'' \<and> val \<noteq> ''0'' then Inr (info\<lparr>si_main_pid := val\<rparr>)
            else if key = ''ActiveEnterTimestamp'' \<and> val \<noteq> [] then
              Inr (info\<lparr>si_uptime := calculate_uptime clk val\<rparr>)
            else if key = ''LoadState'' then Inr (info\<lparr>si_load_state := val\<rparr>)
            else if key = ''UnitFileState'' then Inr (info\<lparr>si_unit_file_state := val\<rparr>)
            else Inr info)
      else Inr info)"

fun apply_properties :: "clock \<Rightarrow> string list \<Rightarrow> service_info \<Rightarrow> exn + service_info" where
  "apply_properties clk [] info = Inr info"
| "apply_properties clk (line # rest) info =
     (case apply_property clk line info of
        Inl err \<Rightarrow> Inl err
      | Inr info' \<Rightarrow> apply_properties clk rest info')"

text \<open>The two \<^verbatim>\<open>except\<close> clauses: \<^verbatim>\<open>TimeoutExpired\<close> first, then any \<^verbatim>\<open>Exception\<close>.\<close>

definition timeout_info :: "string \<Rightarrow> service_info" where
  "timeout_info service_name =
     \<lparr>si_name = service_name, si_status = ''Timeout'', si_active = False,
      si_state = ''unknown'', si_memory = ''N/A'', si_uptime = ''N/A'', si_main_pid = ''N/A'',
      si_load_state = ''N/A'', si_unit_file_state = ''N/A''\<rparr>"

definition error_info :: "string \<Rightarrow> exn \<Rightarrow> service_info" where
  "error_info service_name err =
     \<lparr>si_name = service_name, si_status = ''Error: '' @ exn_str err, si_active = False,
      si_state = ''error'', si_memory = ''N/A'', si_uptime = ''N/A'', si_main_pid = ''N/A'',
      si_load_state = ''N/A'', si_unit_file_state = ''N/A''\<rparr>"

definition status_except :: "string \<Rightarrow> exn \<Rightarrow> service_info" where
  "status_except service_name err =
     (if is_timeout err then timeout_info service_name else error_info service_name err)"

definition show_properties :: string where
  "show_properties =
     ''--property=MainPID,MemoryCurrent,CPUUsageNSec,ActiveEnterTimestamp,LoadState,UnitFileState''"

text \<open>
  \<^verbatim>\<open>get_service_status\<close>: the three queries run one after the other, each with a timeout
  of 5; the first one that raises ends the \<^verbatim>\<open>try\<close> block.
\<close>

definition get_service_status :: "runner \<Rightarrow> clock \<Rightarrow> string \<Rightarrow> service_info" where
  "get_service_status run clk service_name =
     (case run [''systemctl'', ''status'', service_name] 5 of
        Raises err \<Rightarrow> status_except service_name err
      | Completed rc1 out1 err1 \<Rightarrow>
     (case run [''systemctl'', ''is-active'', service_name] 5 of
        Raises err \<Rightarrow> status_except service_name err
      | Completed rc2 out2 err2 \<Rightarrow>
     (case run [''systemctl'', ''show'', service_name, show_properties] 5 of
        Raises err \<Rightarrow> status_except service_name err
      | Completed rc3 out3 err3 \<Rightarrow>
          (let service_info =
                 \<lparr>si_name = service_name, si_status = out1,
                  si_active = (py_strip out2 = ''active''), si_state = py_strip out2,
                  si_memory = ''N/A'', si_uptime = ''N/A'', si_main_pid = ''N/A'',
                  si_load_state = ''N/A'', si_unit_file_state = ''N/A''\<rparr>
           in if rc3 = 0
              then (case apply_properties clk (py_split CHR 0x0A (py_strip out3)) service_info of
                      Inl err \<Rightarrow> status_except service_name err
                    | Inr info \<Rightarrow> info)
              else service_info))))"

section \<open>Control executor\<close>



text \<open>
  The request body after \<^verbatim>\<open>json.loads\<close>.  Numbers are kept as their text: the
  handlers modelled here only compare values for equality with strings.  An object is
  the list of its members in document order; a later member overrides an earlier one
  with the same key.
\<close>

datatype json =
    JNull | JBool bool | JNumber string | JString string | JArray "json list"
  | JObject "(string \<times> json) list"




section \<open>Disk usage surveyor\<close>

record disk_entry =
  de_filesystem :: string
  de_size :: string
  de_used :: string
  de_available :: string
  de_use_percent :: string
  de_use_percent_num :: int
  de_mounted_on :: string

text \<open>
  One line of the table.  \<^verbatim>\<open>int(use_percent)\<close> cannot raise on a string of digits, so
  the \<^verbatim>\<open>except (ValueError, TypeError)\<close> around it never runs.
\<close>

definition disk_row :: "string \<Rightarrow> disk_entry list" where
  "disk_row line =
     (let parts = py_split_ws line
      in if 6 \<le> length parts then
           (let use_percent = py_rstrip_char CHR ''%'' (parts ! 4)
            in [\<lparr>de_filesystem = parts ! 0, de_size = parts ! 1, de_used = parts ! 2,
                 de_available = parts ! 3, de_use_percent = use_percent,
                 de_use_percent_num = (if py_isdigit use_percent then int_of_digits use_percent else 0),
                 de_mounted_on = join_space (drop 5 parts)\<rparr>])
         else [])"

text \<open>
  \<^verbatim>\<open>disk_usage.sort(key=..., reverse=True)\<close>: the list is reversed, sorted stably in
  ascending order and reversed again.
\<close>

definition sort_reverse :: "('a \<Rightarrow> int) \<Rightarrow> 'a list \<Rightarrow> 'a list" where
  "sort_reverse key xs = rev (sort_key key (rev xs))"

datatype disk_result = Disks "disk_entry list" | DiskError string

definition get_disk_usage :: "runner \<Rightarrow> disk_result" where
  "get_disk_usage run =
     (case run [''df'', ''-h''] 10 of
        Raises e \<Rightarrow>
          (if is_timeout e then DiskError ''Disk usage check timed out''
           else DiskError (''Error getting disk usage: '' @ exn_str e))
      | Completed returncode out err \<Rightarrow>
          (if returncode \<noteq> 0 then DiskError ''Failed to get disk usage''
           else (let lines = py_split CHR 0x0A (py_strip out)
                 in if length lines < 2 then DiskError ''Invalid df output''
                    else Disks (sort_reverse de_use_percent_num (concat (map disk_row (tl lines)))))))"

section \<open>RAM usage surveyor\<close>

record ram_snapshot =
  rs_total :: string
  rs_used :: string
  rs_free :: string
  rs_available :: string
  rs_use_percent :: int

datatype ram_result = Ram ram_snapshot | RamError string

text \<open>
  \<^verbatim>\<open>int((used / total) * 100) if total > 0 else 0\<close> on two floats (the primary source),
  with every exception it can raise.
\<close>

definition float_percent :: "pyfloat \<Rightarrow> pyfloat \<Rightarrow> exn + int" where
  "float_percent used_kb total_kb =
     (if float_greater_int total_kb 0 then
        (case fdiv used_kb total_kb of
           Inl err \<Rightarrow> Inl err
         | Inr ratio \<Rightarrow> int_of_float (fmul ratio (float_lit 100)))
      else Inr 0)"

text \<open>The same expression on two \<^verbatim>\<open>int\<close>s (the fallback).\<close>

definition int_percent :: "int \<Rightarrow> int \<Rightarrow> exn + int" where
  "int_percent used_bytes total_bytes =
     (if 0 < total_bytes then
        (case int_truediv used_bytes total_bytes of
           Inl err \<Rightarrow> Inl err
         | Inr ratio \<Rightarrow> int_of_float (fmul ratio (float_lit 100)))
      else Inr 0)"

fun is_value_or_zerodiv :: "exn \<Rightarrow> bool" where
  "is_value_or_zerodiv (ValueError m) = True"
| "is_value_or_zerodiv (ZeroDivisionError m) = True"
| "is_value_or_zerodiv e = False"

text \<open>
  The primary source, once \<^verbatim>\<open>free -h\<close> gave a memory line of at least seven columns.
  The inner \<^verbatim>\<open>try\<close> turns a \<^verbatim>\<open>ValueError\<close> or \<^verbatim>\<open>ZeroDivisionError\<close> into 0 percent; any
  other exception leaves \<^verbatim>\<open>get_ram_usage\<close>.
\<close>

definition ram_from_free :: "string list \<Rightarrow> exn + ram_result" where
  "ram_from_free mem_line =
     (let total = mem_line ! 1; used = mem_line ! 2; free = mem_line ! 3;
          available = mem_line ! 6;
          percent =
            (case parse_memory_value total of
               Inl err \<Rightarrow> Inl err
             | Inr total_kb \<Rightarrow>
                 (case parse_memory_value used of
                    Inl err \<Rightarrow> Inl err
                  | Inr used_kb \<Rightarrow> float_percent used_kb total_kb))
      in case percent of
           Inl err \<Rightarrow>
             (if is_value_or_zerodiv err
              then Inr (Ram \<lparr>rs_total = total, rs_used = used, rs_free = free,
                              rs_available = available, rs_use_percent = 0\<rparr>)
              else Inl err)
         | Inr p \<Rightarrow>
             Inr (Ram \<lparr>rs_total = total, rs_used = used, rs_free = free,
                        rs_available = available, rs_use_percent = p\<rparr>))"

text \<open>
  The fallback.  \<^verbatim>\<open>mem_data\<close> is the dictionary built from the lines of
  \<^verbatim>\<open>/proc/meminfo\<close>: a line with a colon whose value starts with a token of digits
  stores that number times 1024 under the stripped key.
\<close>

definition meminfo_line :: "string \<Rightarrow> (string \<rightharpoonup> int) \<Rightarrow> (string \<rightharpoonup> int)" where
  "meminfo_line line mem_data =
     (if CHR '':'' \<in> set line then
        (let key = fst (split_first CHR '':'' line);
             value_parts = py_split_ws (py_strip (snd (split_first CHR '':'' line)))
         in if value_parts \<noteq> [] \<and> py_isdigit (hd value_parts)
            then mem_data(py_strip key \<mapsto> int_of_digits (hd value_parts) * 1024)
            else mem_data)
      else mem_data)"

definition parse_meminfo :: "string \<Rightarrow> (string \<rightharpoonup> int)" where
  "parse_meminfo meminfo = foldl (\<lambda>mem_data line. meminfo_line line mem_data) Map.empty
     (py_split CHR 0x0A meminfo)"

text \<open>
  The block under \<^verbatim>\<open>if 'MemTotal' in mem_data\<close>: the four formatted sizes in the
  order the program computes them, then the percentage.  An exception raised here is
  caught by the \<^verbatim>\<open>except\<close> clauses of the fallback.
\<close>

definition ram_from_meminfo :: "(string \<rightharpoonup> int) \<Rightarrow> int \<Rightarrow> exn + ram_snapshot" where
  "ram_from_meminfo mem_data total_bytes =
     (let available_bytes =
            (case mem_data ''MemAvailable'' of
               Some a \<Rightarrow> a
             | None \<Rightarrow> (case mem_data ''MemFree'' of Some f \<Rightarrow> f | None \<Rightarrow> 0));
          free_bytes = (case mem_data ''MemFree'' of Some f \<Rightarrow> f | None \<Rightarrow> 0);
          used_bytes = total_bytes - available_bytes
      in case format_bytes total_bytes of
           Inl err \<Rightarrow> Inl err
         | Inr total_formatted \<Rightarrow>
        (case format_bytes used_bytes of
           Inl err \<Rightarrow> Inl err
         | Inr used_formatted \<Rightarrow>
        (case format_bytes free_bytes of
           Inl err \<Rightarrow> Inl err
         | Inr free_formatted \<Rightarrow>
        (case format_bytes available_bytes of
           Inl err \<Rightarrow> Inl err
         | Inr available_formatted \<Rightarrow>
        (case int_percent used_bytes total_bytes of
           Inl err \<Rightarrow> Inl err
         | Inr use_percent \<Rightarrow>
             Inr \<lparr>rs_total = total_formatted, rs_used = used_formatted,
                  rs_free = free_formatted, rs_available = available_formatted,
                  rs_use_percent = use_percent\<rparr>)))))"

fun is_oserror :: "exn \<Rightarrow> bool" where
  "is_oserror (OSError m) = True"
| "is_oserror (FileNotFoundError m) = True"
| "is_oserror e = False"

text \<open>
  \<open>meminfo\<close> is what \<^verbatim>\<open>open('/proc/meminfo').read()\<close> gives: the text, or the exception
  raised.
\<close>

definition ram_fallback :: "exn + string \<Rightarrow> ram_result" where
  "ram_fallback meminfo =
     (case meminfo of
        Inl err \<Rightarrow>
          (if is_oserror err then RamError (''Error reading memory info: '' @ exn_str err)
           else RamError (''Error getting RAM usage: '' @ exn_str err))
      | Inr text \<Rightarrow>
          (case parse_meminfo text ''MemTotal'' of
             None \<Rightarrow> RamError ''Unable to determine RAM usage''
           | Some total_bytes \<Rightarrow>
               (case ram_from_meminfo (parse_meminfo text) total_bytes of
                  Inl err \<Rightarrow> RamError (''Error getting RAM usage: '' @ exn_str err)
                | Inr snapshot \<Rightarrow> Ram snapshot)))"

text \<open>
  The exceptions the first \<^verbatim>\<open>try\<close> of \<^verbatim>\<open>get_ram_usage\<close> catches:
  \<^verbatim>\<open>TimeoutExpired\<close>, \<^verbatim>\<open>FileNotFoundError\<close> and \<^verbatim>\<open>SubprocessError\<close>.
\<close>

fun primary_caught :: "exn \<Rightarrow> bool" where
  "primary_caught (TimeoutExpired m) = True"
| "primary_caught (FileNotFoundError m) = True"
| "primary_caught (SubprocessError m) = True"
| "primary_caught e = False"

definition get_ram_usage :: "runner \<Rightarrow> exn + string \<Rightarrow> exn + ram_result" where
  "get_ram_usage run meminfo =
     (case run [''free'', ''-h''] 10 of
        Raises e \<Rightarrow> (if primary_caught e then Inr (ram_fallback meminfo) else Inl e)
      | Completed returncode out err \<Rightarrow>
          (if returncode = 0 \<and> 2 \<le> length (py_split CHR 0x0A (py_strip out))
              \<and> 7 \<le> length (py_split_ws (py_split CHR 0x0A (py_strip out) ! 1))
           then (case ram_from_free (py_split_ws (py_split CHR 0x0A (py_strip out) ! 1)) of
                   Inl e \<Rightarrow> (if primary_caught e then Inr (ram_fallback meminfo) else Inl e)
                 | Inr r \<Rightarrow> Inr r)
           else Inr (ram_fallback meminfo)))"

section \<open>The durable store: tracked services and toggle states\<close>

text \<open>
  The dashboard keeps two SQLite tables.  A table is modelled as the list of its rows in
  rowid order together with the \<open>sqlite_sequence\<close> counter that \<open>AUTOINCREMENT\<close>
  maintains (the largest rowid ever handed out).  \<open>CURRENT_TIMESTAMP\<close> is supplied by
  the caller as \<open>now\<close>.  Text values are byte strings and are compared with SQLite's
  default \<open>BINARY\<close> collation, that is, bytewise.  Every statement is assumed to reach
  the database (no I/O failure, no lock timeout).
\<close>

type_synonym timestamp = nat

record tracked_row =
  tr_id :: nat
  tr_service_name :: string
  tr_added_at :: timestamp

record toggle_row =
  tg_id :: nat
  tg_service_name :: string
  tg_toggle_type :: string
  tg_is_expanded :: int
  tg_updated_at :: timestamp

record db =
  tracked_services :: "tracked_row list"
  tracked_seq :: nat
  service_toggles :: "toggle_row list"
  toggles_seq :: nat

text \<open>\<open>init_db\<close> on a fresh file: both tables are created empty.\<close>

definition init_db :: db where
  "init_db = \<lparr>tracked_services = [], tracked_seq = 0, service_toggles = [], toggles_seq = 0\<rparr>"

text \<open>
  \<open>SELECT service_name FROM tracked_services ORDER BY service_name\<close>: the names,
  sorted bytewise ascending.
\<close>

definition get_tracked_services :: "db \<Rightarrow> string list" where
  "get_tracked_services d = sort (map tr_service_name (tracked_services d))"

text \<open>
  \<open>add_service\<close>: the \<open>INSERT\<close> violates \<open>UNIQUE(service_name)\<close> when the name is
  already there; the \<open>IntegrityError\<close> is caught, nothing is committed and \<open>False\<close> is
  returned.  Otherwise the row is appended with the next rowid and \<open>True\<close> is returned.
\<close>

definition add_service :: "timestamp \<Rightarrow> string \<Rightarrow> db \<Rightarrow> bool \<times> db" where
  "add_service now service_name d =
     (if service_name \<in> set (map tr_service_name (tracked_services d)) then (False, d)
      else (True,
            d\<lparr>tracked_services := tracked_services d @
                  [\<lparr>tr_id = Suc (tracked_seq d), tr_service_name = service_name,
                    tr_added_at = now\<rparr>],
               tracked_seq := Suc (tracked_seq d)\<rparr>))"

text \<open>\<open>remove_service\<close>: \<open>DELETE ... WHERE service_name = ?\<close>; returns nothing.\<close>

definition remove_service :: "string \<Rightarrow> db \<Rightarrow> db" where
  "remove_service service_name d =
     d\<lparr>tracked_services := filter (\<lambda>r. tr_service_name r \<noteq> service_name) (tracked_services d)\<rparr>"

text \<open>
  What \<open>get_toggle_state\<close> hands back: the stored column value (SQLite keeps a Python
  \<open>bool\<close> as the integer 1 or 0 and returns an \<open>int\<close>), or the literal \<open>False\<close> when
  no row matches.
\<close>

datatype pyval = PyBool bool | PyInt int

definition toggle_matches :: "string \<Rightarrow> string \<Rightarrow> toggle_row \<Rightarrow> bool" where
  "toggle_matches service_name toggle_type r \<longleftrightarrow>
     tg_service_name r = service_name \<and> tg_toggle_type r = toggle_type"

definition get_toggle_state :: "db \<Rightarrow> string \<Rightarrow> string \<Rightarrow> pyval" where
  "get_toggle_state d service_name toggle_type =
     (case filter (toggle_matches service_name toggle_type) (service_toggles d) of
        [] \<Rightarrow> PyBool False
      | r # _ \<Rightarrow> PyInt (tg_is_expanded r))"

text \<open>
  \<open>set_toggle_state\<close>: \<open>INSERT OR REPLACE\<close> deletes the rows that clash on
  \<open>UNIQUE(service_name, toggle_type)\<close> and then inserts the new row under a fresh rowid.
\<close>

definition set_toggle_state :: "timestamp \<Rightarrow> string \<Rightarrow> string \<Rightarrow> bool \<Rightarrow> db \<Rightarrow> db" where
  "set_toggle_state now service_name toggle_type is_expanded d =
     d\<lparr>service_toggles :=
          filter (\<lambda>r. \<not> toggle_matches service_name toggle_type r) (service_toggles d) @
          [\<lparr>tg_id = Suc (toggles_seq d), tg_service_name = service_name,
            tg_toggle_type = toggle_type, tg_is_expanded = (if is_expanded then 1 else 0),
            tg_updated_at = now\<rparr>],
       toggles_seq := Suc (toggles_seq d)\<rparr>"

text \<open>The registry states the program can be in: from the fresh store, by adds and removes.\<close>

inductive reachable :: "db \<Rightarrow> bool" where
  reach_init: "reachable init_db"
| reach_add: "reachable d \<Longrightarrow> reachable (snd (add_service now n d))"
| reach_remove: "reachable d \<Longrightarrow> reachable (remove_service n d)"
| reach_toggle: "reachable d \<Longrightarrow> reachable (set_toggle_state now n t b d)"

section \<open>The service list\<close>

text \<open>
  \<^verbatim>\<open>_handle_get_services\<close>: one status record for each tracked name, in the order
  \<^verbatim>\<open>get_tracked_services\<close> gives them.
\<close>

definition handle_get_services :: "runner \<Rightarrow> clock \<Rightarrow> db \<Rightarrow> service_info list" where
  "handle_get_services run clk d = map (get_service_status run clk) (get_tracked_services d)"

section \<open>Vocabulary of the properties\<close>

text \<open>Whether a command timed out, and whether it ran to its end.\<close>

fun times_out :: "run_result \<Rightarrow> bool" where
  "times_out (Raises e) = is_timeout e"
| "times_out (Completed rc out err) = False"

fun completes :: "run_result \<Rightarrow> bool" where
  "completes (Completed rc out err) = True"
| "completes (Raises e) = False"

text \<open>
  One of the three status queries exceeds its timeout: the first, or a later one that
  is reached because the queries before it ran to their end.
\<close>

definition status_query_times_out :: "runner \<Rightarrow> string \<Rightarrow> bool" where
  "status_query_times_out run service_name \<longleftrightarrow>
     times_out (run [''systemctl'', ''status'', service_name] 5) \<or>
     completes (run [''systemctl'', ''status'', service_name] 5) \<and>
       (times_out (run [''systemctl'', ''is-active'', service_name] 5) \<or>
        completes (run [''systemctl'', ''is-active'', service_name] 5) \<and>
          times_out (run [''systemctl'', ''show'', service_name, show_properties] 5))"


text \<open>
  The uptime bucketing as the specification words it, on the whole seconds \<open>s\<close> of
  the elapsed time.
\<close>

definition uptime_spec :: "int \<Rightarrow> string" where
  "uptime_spec s =
     (if s < 60 then show_int s @ ''s''
      else if s < 3600 then show_int (s div 60) @ ''m''
      else if s < 86400 then show_int (s div 3600) @ ''h '' @ show_int (s mod 3600 div 60) @ ''m''
      else show_int (s div 86400) @ ''d '' @ show_int (s mod 86400 div 3600) @ ''h'')"

text \<open>An output of \<^verbatim>\<open>df -h\<close>, used as a concrete input.\<close>

definition df_example :: string where
  "df_example = ''Filesystem Size Used Avail Use% Mounted on'' @ [CHR 0x0A] @
                ''/dev/sda1 50G 20G 30G 40% /'' @ [CHR 0x0A] @
                ''tmpfs 1G 0 1G - /run'' @ [CHR 0x0A] @
                ''/dev/sdb1 1T 900G 100G 90% /data'' @ [CHR 0x0A]"

section \<open>Properties\<close>

lemmas str_eval = py_strip_def py_isspace_def py_split_def py_split_ws_def py_rstrip_char_def
  py_isdigit_def is_digit_def int_of_digits_def digit_val_def


lemmas float_eval = round_double_def round_pos_def scaled_round_def floor_log2_def
  round_half_even_def Let_def compute_bitlen float_of_int_def float_lit_def

lemmas show_eval = show_int_def show_nat.simps digit_char_def

subsection \<open>Registry and toggle store\<close>

lemma reachable_distinct: "reachable d \<Longrightarrow> distinct (map tr_service_name (tracked_services d))"
  by (induction rule: reachable.induct)
     (auto simp: init_db_def add_service_def remove_service_def set_toggle_state_def distinct_map_filter)

lemma filter_toggle_set_same:
  "filter (toggle_matches s t) (service_toggles (set_toggle_state now s t b d)) =
     [\<lparr>tg_id = Suc (toggles_seq d), tg_service_name = s, tg_toggle_type = t,
       tg_is_expanded = (if b then 1 else 0), tg_updated_at = now\<rparr>]"
proof -
  have "filter (toggle_matches s t) (filter (\<lambda>r. \<not> toggle_matches s t r) rs) = []" for rs
    by (induction rs) auto
  then show ?thesis
    by (simp add: set_toggle_state_def toggle_matches_def)
qed

lemma filter_toggle_set_other:
  assumes "(s', t') \<noteq> (s, t)"
  shows "filter (toggle_matches s' t') (service_toggles (set_toggle_state now s t b d)) =
         filter (toggle_matches s' t') (service_toggles d)"
proof -
  have "filter (toggle_matches s' t') (filter (\<lambda>r. \<not> toggle_matches s t r) rs) =
        filter (toggle_matches s' t') rs" for rs
    using assms by (induction rs) (auto simp: toggle_matches_def)
  then show ?thesis
    using assms by (auto simp: set_toggle_state_def toggle_matches_def)
qed

lemma get_toggle_set_same:
  "get_toggle_state (set_toggle_state now s t b d) s t = PyInt (if b then 1 else 0)"
  by (simp add: get_toggle_state_def filter_toggle_set_same)

lemma get_toggle_set_other:
  "(s', t') \<noteq> (s, t) \<Longrightarrow>
   get_toggle_state (set_toggle_state now s t b d) s' t' = get_toggle_state d s' t'"
  using filter_toggle_set_other [of s' t' s t now b d] by (simp add: get_toggle_state_def)

lemma other_rows_set_toggle:
  "filter (\<lambda>r. \<not> toggle_matches s t r) (service_toggles (set_toggle_state now s t b d)) =
   filter (\<lambda>r. \<not> toggle_matches s t r) (service_toggles d)"
  by (simp add: set_toggle_state_def toggle_matches_def)

text \<open>
  C8.  In a registry that does not track \<open>service_name\<close> yet, the first add returns
  \<open>True\<close>; whatever the registry was, an add that follows an add of the same name returns
  \<open>False\<close>; and removing a name that is not tracked leaves the whole store as it was.
  \<open>add_service\<close> and \<open>remove_service\<close> are total here: no error value exists for them.
\<close>

theorem add_twice_remove_untracked:
  "(service_name \<notin> set (get_tracked_services d) \<longrightarrow>
      fst (add_service now service_name d) = True) \<and>
   fst (add_service now' service_name (snd (add_service now service_name d))) = False \<and>
   (service_name \<notin> set (get_tracked_services d) \<longrightarrow> remove_service service_name d = d)"
proof -
  have "remove_service service_name d = d"
    if "service_name \<notin> set (get_tracked_services d)"
  proof -
    have "filter (\<lambda>r. tr_service_name r \<noteq> service_name) (tracked_services d) = tracked_services d"
      using that by (auto simp: get_tracked_services_def filter_id_conv)
    then show ?thesis
      by (simp add: remove_service_def)
  qed
  then show ?thesis
    by (auto simp: add_service_def get_tracked_services_def)
qed

theorem add_twice_remove_untracked_witness:
  "fst (add_service 7 ''nginx'' init_db) = True \<and>
   fst (add_service 9 ''nginx'' (snd (add_service 7 ''nginx'' init_db))) = False \<and>
   remove_service ''nginx'' init_db = init_db"
proof -
  have h: "''nginx'' \<notin> set (get_tracked_services init_db)"
    by (simp add: get_tracked_services_def init_db_def)
  from add_twice_remove_untracked [of "''nginx''" init_db 7 9] h show ?thesis
    by blast
qed

text \<open>
  C9.  For two different panel types \<open>t1\<close> and \<open>t2\<close> of one service: after writing
  \<open>(svc, t1)\<close> and then \<open>(svc, t2)\<close>, each state reads back as written (as the integer
  SQLite stores for the boolean); writing \<open>(svc, t1)\<close> again replaces that row alone: all
  other rows of the toggle table are the same rows in the same order, every other
  (service, panel) key reads as before, and the registry table is untouched.
\<close>

theorem toggle_states_independent:
  assumes "t1 \<noteq> t2"
  shows "get_toggle_state (set_toggle_state n2 svc t2 b (set_toggle_state n1 svc t1 a d)) svc t1
           = PyInt (if a then 1 else 0) \<and>
         get_toggle_state (set_toggle_state n2 svc t2 b (set_toggle_state n1 svc t1 a d)) svc t2
           = PyInt (if b then 1 else 0) \<and>
         get_toggle_state (set_toggle_state n3 svc t1 c d') svc t1 = PyInt (if c then 1 else 0) \<and>
         filter (\<lambda>r. \<not> toggle_matches svc t1 r) (service_toggles (set_toggle_state n3 svc t1 c d'))
           = filter (\<lambda>r. \<not> toggle_matches svc t1 r) (service_toggles d') \<and>
         (\<forall>s t. (s, t) \<noteq> (svc, t1) \<longrightarrow>
            get_toggle_state (set_toggle_state n3 svc t1 c d') s t = get_toggle_state d' s t) \<and>
         tracked_services (set_toggle_state n3 svc t1 c d') = tracked_services d'"
proof -
  have "(svc, t1) \<noteq> (svc, t2)"
    using assms by simp
  then have "get_toggle_state (set_toggle_state n2 svc t2 b (set_toggle_state n1 svc t1 a d)) svc t1
      = get_toggle_state (set_toggle_state n1 svc t1 a d) svc t1"
    by (rule get_toggle_set_other)
  moreover have "tracked_services (set_toggle_state n3 svc t1 c d') = tracked_services d'"
    by (simp add: set_toggle_state_def)
  ultimately show ?thesis
    by (simp add: get_toggle_set_same get_toggle_set_other other_rows_set_toggle)
qed

theorem toggle_states_independent_witness:
  "get_toggle_state (set_toggle_state 2 ''nginx'' ''journal'' False
       (set_toggle_state 1 ''nginx'' ''logs'' True init_db)) ''nginx'' ''logs'' = PyInt 1 \<and>
   get_toggle_state (set_toggle_state 2 ''nginx'' ''journal'' False
       (set_toggle_state 1 ''nginx'' ''logs'' True init_db)) ''nginx'' ''journal'' = PyInt 0 \<and>
   get_toggle_state (set_toggle_state 3 ''nginx'' ''logs'' False
       (set_toggle_state 2 ''nginx'' ''journal'' True
         (set_toggle_state 1 ''nginx'' ''logs'' True init_db))) ''nginx'' ''journal'' = PyInt 1"
proof -
  have ne: "''logs'' \<noteq> ''journal''"
    by simp
  have a: "get_toggle_state (set_toggle_state 2 ''nginx'' ''journal'' True
             (set_toggle_state 1 ''nginx'' ''logs'' True init_db)) ''nginx'' ''journal'' = PyInt 1"
    using toggle_states_independent [OF ne, of 2 "''nginx''" True 1 True init_db] by simp
  have b: "(''nginx'', ''journal'') \<noteq> (''nginx'', ''logs'')"
    by simp
  from toggle_states_independent [OF ne, of 2 "''nginx''" False 1 True init_db 3 False
        "set_toggle_state 2 ''nginx'' ''journal'' True
           (set_toggle_state 1 ''nginx'' ''logs'' True init_db)"] a b
  show ?thesis
    by (simp del: set_toggle_state_def)
qed

subsection \<open>Status collector\<close>

lemma times_out_cases: "times_out r \<Longrightarrow> \<exists>e. r = Raises e \<and> is_timeout e"
  by (cases r) auto

lemma completes_cases: "completes r \<Longrightarrow> \<exists>rc out err. r = Completed rc out err"
  by (cases r) auto

text \<open>
  C4.  Whatever the unit name: when one of the status queries exceeds its timeout of 5,
  \<open>get_service_status\<close> returns the record with state \<open>unknown\<close>, active false, status
  \<open>Timeout\<close>, and memory, uptime and main_pid \<open>N/A\<close>.  The function is total: it returns a
  record on every input, so no exception leaves it.
\<close>

theorem status_timeout_degrades:
  assumes "status_query_times_out run service_name"
  shows "get_service_status run clk service_name =
           \<lparr>si_name = service_name, si_status = ''Timeout'', si_active = False,
            si_state = ''unknown'', si_memory = ''N/A'', si_uptime = ''N/A'',
            si_main_pid = ''N/A'', si_load_state = ''N/A'', si_unit_file_state = ''N/A''\<rparr>"
proof -
  let ?q1 = "run [''systemctl'', ''status'', service_name] 5"
  let ?q2 = "run [''systemctl'', ''is-active'', service_name] 5"
  let ?q3 = "run [''systemctl'', ''show'', service_name, show_properties] 5"
  consider (a) "times_out ?q1"
    | (b) "completes ?q1" "times_out ?q2"
    | (c) "completes ?q1" "completes ?q2" "times_out ?q3"
    using assms unfolding status_query_times_out_def by blast
  then have "get_service_status run clk service_name = timeout_info service_name"
  proof cases
    case a
    then obtain e where "?q1 = Raises e" "is_timeout e"
      using times_out_cases by blast
    then show ?thesis
      by (simp add: get_service_status_def status_except_def)
  next
    case b
    obtain rc out err where q1: "?q1 = Completed rc out err"
      using b(1) completes_cases by blast
    obtain e where q2: "?q2 = Raises e" "is_timeout e"
      using b(2) times_out_cases by blast
    from q1 q2 show ?thesis
      by (simp add: get_service_status_def status_except_def)
  next
    case c
    obtain rc out err where q1: "?q1 = Completed rc out err"
      using c(1) completes_cases by blast
    obtain rc' out' err' where q2: "?q2 = Completed rc' out' err'"
      using c(2) completes_cases by blast
    obtain e where q3: "?q3 = Raises e" "is_timeout e"
      using c(3) times_out_cases by blast
    from q1 q2 q3 show ?thesis
      by (simp add: get_service_status_def status_except_def)
  qed
  then show ?thesis
    by (simp add: timeout_info_def)
qed

theorem status_timeout_degrades_witness:
  "get_service_status
     (\<lambda>argv t. if argv ! 1 = ''status'' then Completed 3 ''inactive (dead)'' []
               else Raises (TimeoutExpired ''timed out after 5 seconds''))
     (\<lambda>ts. NoMatch) ''nginx'' =
   \<lparr>si_name = ''nginx'', si_status = ''Timeout'', si_active = False,
    si_state = ''unknown'', si_memory = ''N/A'', si_uptime = ''N/A'',
    si_main_pid = ''N/A'', si_load_state = ''N/A'', si_unit_file_state = ''N/A''\<rparr>"
  by (rule status_timeout_degrades) (simp add: status_query_times_out_def)

subsection \<open>Control executor\<close>



subsection \<open>Disk usage surveyor\<close>

lemma sorted_desc_sort_reverse: "sorted_wrt (\<ge>) (map key (sort_reverse key xs))"
proof -
  have "sorted (map key (sort_key key (rev xs)))"
    by (rule sorted_sort_key)
  then show ?thesis
    by (simp add: sort_reverse_def rev_map [symmetric] sorted_wrt_rev del: rev_map)
qed

lemma set_sort_reverse: "set (sort_reverse key xs) = set xs"
  by (simp add: sort_reverse_def)

lemma disk_row_nondigit:
  assumes "6 \<le> length (py_split_ws line)"
    and "\<not> py_isdigit (py_rstrip_char CHR ''%'' (py_split_ws line ! 4))"
  shows "\<exists>e. disk_row line = [e] \<and> de_use_percent_num e = 0 \<and>
             de_use_percent e = py_rstrip_char CHR ''%'' (py_split_ws line ! 4)"
  using assms by (simp add: disk_row_def Let_def)

lemma disk_row_entry:
  assumes "e \<in> set (disk_row line)"
  shows "6 \<le> length (py_split_ws line) \<and>
         de_use_percent e = py_rstrip_char CHR ''%'' (py_split_ws line ! 4) \<and>
         de_use_percent_num e = (if py_isdigit (de_use_percent e) then int_of_digits (de_use_percent e) else 0)"
  using assms by (auto simp: disk_row_def Let_def split: if_splits)

text \<open>
  C6.  When \<^verbatim>\<open>df -h\<close> exits with 0 and prints at least two lines, the result is the list
  of the rows of the lines after the header, sorted by \<open>use_percent_num\<close> in descending
  order, and every row in it whose percent text is not all digits has
  \<open>use_percent_num = 0\<close>.  A line of at least six columns whose fifth column, without its
  trailing percent signs, is not all digits gives exactly one row, with
  \<open>use_percent_num = 0\<close>.  Whatever \<^verbatim>\<open>df\<close> does, a list that is returned is sorted so;
  \<open>get_disk_usage\<close> is total, so no exception leaves it.
\<close>

theorem disk_usage_sorted_desc:
  "(run [''df'', ''-h''] 10 = Completed 0 out err \<and> 2 \<le> length (py_split CHR 0x0A (py_strip out)) \<longrightarrow>
      (\<exists>disks. get_disk_usage run = Disks disks \<and>
         sorted_wrt (\<ge>) (map de_use_percent_num disks) \<and>
         set disks = (\<Union>line \<in> set (tl (py_split CHR 0x0A (py_strip out))). set (disk_row line)) \<and>
         (\<forall>e \<in> set disks. \<not> py_isdigit (de_use_percent e) \<longrightarrow> de_use_percent_num e = 0))) \<and>
   (6 \<le> length (py_split_ws line) \<and>
    \<not> py_isdigit (py_rstrip_char CHR ''%'' (py_split_ws line ! 4)) \<longrightarrow>
      (\<exists>e. disk_row line = [e] \<and> de_use_percent_num e = 0)) \<and>
   (case get_disk_usage run of
      Disks disks \<Rightarrow> sorted_wrt (\<ge>) (map de_use_percent_num disks)
    | DiskError msg \<Rightarrow> True)"
proof -
  have 1: "\<exists>disks. get_disk_usage run = Disks disks \<and>
         sorted_wrt (\<ge>) (map de_use_percent_num disks) \<and>
         set disks = (\<Union>line \<in> set (tl (py_split CHR 0x0A (py_strip out))). set (disk_row line)) \<and>
         (\<forall>e \<in> set disks. \<not> py_isdigit (de_use_percent e) \<longrightarrow> de_use_percent_num e = 0)"
    if r: "run [''df'', ''-h''] 10 = Completed 0 out err"
      and n: "2 \<le> length (py_split CHR 0x0A (py_strip out))"
  proof -
    let ?rows = "concat (map disk_row (tl (py_split CHR 0x0A (py_strip out))))"
    have g: "get_disk_usage run = Disks (sort_reverse de_use_percent_num ?rows)"
      using r n by (simp add: get_disk_usage_def Let_def)
    have z: "de_use_percent_num e = 0"
      if "e \<in> set ?rows" "\<not> py_isdigit (de_use_percent e)" for e
    proof -
      from that(1) obtain line where "e \<in> set (disk_row line)"
        by auto
      from disk_row_entry [OF this] that(2) show ?thesis
        by simp
    qed
    show ?thesis
      using g z by (auto simp: sorted_desc_sort_reverse set_sort_reverse)
  qed
  have 2: "\<exists>e. disk_row line = [e] \<and> de_use_percent_num e = 0"
    if "6 \<le> length (py_split_ws line)"
      "\<not> py_isdigit (py_rstrip_char CHR ''%'' (py_split_ws line ! 4))"
    using disk_row_nondigit [OF that] by blast
  have 3: "case get_disk_usage run of
      Disks disks \<Rightarrow> sorted_wrt (\<ge>) (map de_use_percent_num disks)
    | DiskError msg \<Rightarrow> True"
    by (simp add: get_disk_usage_def Let_def sorted_desc_sort_reverse
        split: run_result.splits)
  from 1 2 3 show ?thesis
    by blast
qed

theorem disk_usage_sorted_desc_witness:
  "get_disk_usage (\<lambda>argv t. Completed 0 df_example []) =
     Disks [\<lparr>de_filesystem = ''/dev/sdb1'', de_size = ''1T'', de_used = ''900G'',
              de_available = ''100G'', de_use_percent = ''90'', de_use_percent_num = 90,
              de_mounted_on = ''/data''\<rparr>,
            \<lparr>de_filesystem = ''/dev/sda1'', de_size = ''50G'', de_used = ''20G'',
              de_available = ''30G'', de_use_percent = ''40'', de_use_percent_num = 40,
              de_mounted_on = ''/''\<rparr>,
            \<lparr>de_filesystem = ''tmpfs'', de_size = ''1G'', de_used = ''0'',
              de_available = ''1G'', de_use_percent = ''-'', de_use_percent_num = 0,
              de_mounted_on = ''/run''\<rparr>] \<and>
   disk_row ''tmpfs 1G 0 1G - /run'' =
     [\<lparr>de_filesystem = ''tmpfs'', de_size = ''1G'', de_used = ''0'',
       de_available = ''1G'', de_use_percent = ''-'', de_use_percent_num = 0,
       de_mounted_on = ''/run''\<rparr>]"
proof -
  let ?run = "\<lambda>(argv :: string list) (t :: nat). Completed 0 df_example []"
  have lines: "py_split CHR 0x0A (py_strip df_example) =
      [''Filesystem Size Used Avail Use% Mounted on'', ''/dev/sda1 50G 20G 30G 40% /'',
       ''tmpfs 1G 0 1G - /run'', ''/dev/sdb1 1T 900G 100G 90% /data'']"
    by (simp add: df_example_def str_eval)
  have parts: "py_split_ws ''tmpfs 1G 0 1G - /run'' = [''tmpfs'', ''1G'', ''0'', ''1G'', ''-'', ''/run'']"
    by (simp add: str_eval)
  have h1: "?run [''df'', ''-h''] 10 = Completed 0 df_example [] \<and>
            2 \<le> length (py_split CHR 0x0A (py_strip df_example))"
    by (simp add: lines)
  have h2: "6 \<le> length (py_split_ws ''tmpfs 1G 0 1G - /run'') \<and>
            \<not> py_isdigit (py_rstrip_char CHR ''%'' (py_split_ws ''tmpfs 1G 0 1G - /run'' ! 4))"
    by (simp add: parts) (simp add: str_eval)
  have r1: "disk_row ''/dev/sda1 50G 20G 30G 40% /'' =
      [\<lparr>de_filesystem = ''/dev/sda1'', de_size = ''50G'', de_used = ''20G'',
        de_available = ''30G'', de_use_percent = ''40'', de_use_percent_num = 40,
        de_mounted_on = ''/''\<rparr>]"
    by (simp add: disk_row_def str_eval)
  have r3: "disk_row ''/dev/sdb1 1T 900G 100G 90% /data'' =
      [\<lparr>de_filesystem = ''/dev/sdb1'', de_size = ''1T'', de_used = ''900G'',
        de_available = ''100G'', de_use_percent = ''90'', de_use_percent_num = 90,
        de_mounted_on = ''/data''\<rparr>]"
    by (simp add: disk_row_def str_eval)
  from disk_usage_sorted_desc [of ?run df_example "[]" "''tmpfs 1G 0 1G - /run''"] h1 h2
  obtain disks e where g: "get_disk_usage ?run = Disks disks"
    and e: "disk_row ''tmpfs 1G 0 1G - /run'' = [e]" "de_use_percent_num e = 0"
    by blast
  have r2: "disk_row ''tmpfs 1G 0 1G - /run'' =
     [\<lparr>de_filesystem = ''tmpfs'', de_size = ''1G'', de_used = ''0'',
       de_available = ''1G'', de_use_percent = ''-'', de_use_percent_num = 0,
       de_mounted_on = ''/run''\<rparr>]"
    using e by (simp add: disk_row_def parts) (simp add: str_eval)
  have "get_disk_usage ?run =
      Disks (sort_reverse de_use_percent_num
        (concat (map disk_row (tl (py_split CHR 0x0A (py_strip df_example))))))"
    using h1 by (simp add: get_disk_usage_def)
  then show ?thesis
    by (simp add: lines r1 r2 r3 sort_reverse_def)
qed

subsection \<open>The service list\<close>

lemma si_name_apply_property:
  "apply_property clk line info = Inr info' \<Longrightarrow> si_name info' = si_name info"
  by (auto simp: apply_property_def Let_def split: if_splits sum.splits)

lemma si_name_apply_properties:
  "apply_properties clk ls info = Inr info' \<Longrightarrow> si_name info' = si_name info"
proof (induction ls arbitrary: info)
  case Nil
  then show ?case by simp
next
  case (Cons l ls)
  then show ?case
    by (auto split: sum.splits dest: si_name_apply_property)
qed

lemma si_name_status_except: "si_name (status_except n e) = n"
  by (simp add: status_except_def timeout_info_def error_info_def)

lemma si_name_get_service_status: "si_name (get_service_status run clk n) = n"
  by (auto simp: get_service_status_def Let_def si_name_status_except
      split: run_result.splits sum.splits dest: si_name_apply_properties)

text \<open>
  C10.  In every registry state reachable from the fresh store, \<open>get_tracked_services\<close>
  returns the tracked names in strictly ascending order (so without duplicates); the
  order is the lexicographic order of the strings by character code.  The records of
  the service-list endpoint carry the names in that same order.  Two reachable states
  that track the same set of names give the same list, whatever the order of the
  insertions was.
\<close>

theorem tracked_services_ascending:
  assumes "reachable d"
  shows "sorted_wrt (<) (get_tracked_services d) \<and>
         set (get_tracked_services d) = tr_service_name ` set (tracked_services d) \<and>
         map si_name (handle_get_services run clk d) = get_tracked_services d \<and>
         (reachable d' \<and>
          tr_service_name ` set (tracked_services d') = tr_service_name ` set (tracked_services d) \<longrightarrow>
            get_tracked_services d' = get_tracked_services d)"
proof -
  have sd: "sorted (get_tracked_services x) \<and> distinct (get_tracked_services x)"
    if "reachable x" for x
    using reachable_distinct [OF that] by (simp add: get_tracked_services_def)
  have st: "set (get_tracked_services x) = tr_service_name ` set (tracked_services x)" for x
    by (simp add: get_tracked_services_def)
  have 1: "sorted_wrt (<) (get_tracked_services d)"
    using sd [OF assms] by (simp add: strict_sorted_iff)
  have 3: "map si_name (handle_get_services run clk d) = get_tracked_services d"
    by (simp add: handle_get_services_def si_name_get_service_status comp_def)
  have 4: "get_tracked_services d' = get_tracked_services d"
    if "reachable d'"
      "tr_service_name ` set (tracked_services d') = tr_service_name ` set (tracked_services d)"
  proof (rule sorted_distinct_set_unique)
    show "sorted (get_tracked_services d')" "distinct (get_tracked_services d')"
      using sd [OF that(1)] by simp_all
    show "sorted (get_tracked_services d)" "distinct (get_tracked_services d)"
      using sd [OF assms] by simp_all
    show "set (get_tracked_services d') = set (get_tracked_services d)"
      using that(2) by (simp add: st)
  qed
  from 1 st 3 4 show ?thesis
    by blast
qed

theorem tracked_services_ascending_witness:
  "get_tracked_services
     (snd (add_service 2 ''apache2'' (snd (add_service 1 ''nginx'' init_db)))) =
   [''apache2'', ''nginx'']"
proof -
  let ?d = "snd (add_service 2 ''apache2'' (snd (add_service 1 ''nginx'' init_db)))"
  have r: "reachable ?d"
    by (intro reach_add reach_init)
  have s: "set (get_tracked_services ?d) = {''apache2'', ''nginx''}"
    by (auto simp: get_tracked_services_def add_service_def init_db_def)
  have l: "sorted_wrt (<) [''apache2'', ''nginx'']"
    by (simp add: less_char_def)
  from tracked_services_ascending [OF r, of "\<lambda>argv t. Raises (OtherException [])" "\<lambda>ts. NoMatch" init_db]
  have "sorted_wrt (<) (get_tracked_services ?d)"
    by blast
  then have "sorted (get_tracked_services ?d)" "distinct (get_tracked_services ?d)"
    by (simp_all add: strict_sorted_iff)
  moreover have "sorted [''apache2'', ''nginx'']" "distinct [''apache2'', ''nginx'']"
    using l by (simp_all add: strict_sorted_iff del: sorted_wrt.simps)
  ultimately show ?thesis
    using s by (intro sorted_distinct_set_unique) simp_all
qed

subsection \<open>Uptime formatter\<close>

lemma less_scaled_iff:
  fixes m k P :: int
  assumes "0 < P"
  shows "m < k * P \<longleftrightarrow> m div P < k"
proof -
  have "(m + (- k) * P) div P = - k + m div P"
    using assms by (intro div_mult_self1) simp
  then have "(m - k * P) div P = m div P - k"
    by simp
  moreover have "(m - k * P) div P < 0 \<longleftrightarrow> m - k * P < 0"
    using assms by (rule pos_imp_zdiv_neg_iff)
  ultimately show ?thesis
    by linarith
qed

lemma div_scaled:
  fixes m k P :: int
  assumes "0 < k"
  shows "m div (k * P) = (m div P) div k"
  by (metis assms mult.commute order_less_imp_le zdiv_zmult2_eq)

lemma mod_div_scaled:
  fixes m k1 k2 P :: int
  assumes "0 < P" "0 < k1" "0 < k2"
  shows "(m mod (k1 * P)) div (k2 * P) = ((m div P) mod k1) div k2"
proof -
  have "m mod (k1 * P) = P * ((m div P) mod k1) + m mod P"
    using zmod_zmult2_eq [of k1 m P] assms by (simp add: mult.commute)
  moreover have "(P * x + m mod P) div (k2 * P) = x div k2" for x
  proof -
    have "(P * x + m mod P) div (k2 * P) = ((P * x + m mod P) div P) div k2"
      using assms(3) by (rule div_scaled)
    also have "(P * x + m mod P) div P = x"
      using assms by simp
    finally show ?thesis .
  qed
  ultimately show ?thesis
    by simp
qed

lemma uptime_text_nonneg:
  assumes "0 \<le> m" and "int_of_float (Float m e) = Inr s"
  shows "uptime_text (Float m e) = Inr (uptime_spec s)"
proof (cases "0 \<le> e")
  case True
  then have "s = m * 2 ^ nat e"
    using assms by simp
  with True show ?thesis
    by (simp add: uptime_text_def uptime_spec_def)
next
  case False
  define P :: int where "P = 2 ^ nat (- e)"
  have P: "0 < P"
    by (simp add: P_def)
  have s: "s = m div P"
    using False assms by (simp add: P_def)
  have lt: "float_less_int (Float m e) k \<longleftrightarrow> s < k" for k
    using False less_scaled_iff [OF P, of m k] by (simp add: P_def s)
  have fd: "int_floordiv (Float m e) k = Inr (s div k)" if "0 < k" for k
    using False div_scaled [OF that, of m P] by (simp add: P_def s)
  have md: "int_mod_floordiv (Float m e) k1 k2 = Inr (s mod k1 div k2)"
    if "0 < k1" "0 < k2" for k1 k2
    using False mod_div_scaled [OF P that, of m] by (simp add: P_def s)
  show ?thesis
    using assms(2) by (simp add: uptime_text_def uptime_spec_def lt fd md del: int_of_float.simps
        int_floordiv.simps int_mod_floordiv.simps float_less_int.simps)
qed

text \<open>
  C2.  For every finite elapsed time that is not negative, with \<open>s\<close> its whole seconds
  (\<^verbatim>\<open>int(uptime_seconds)\<close>): below 60 the text is \<open>s\<close> followed by \<open>s\<close>; below 3600 it is
  \<open>s div 60\<close> and \<open>m\<close>; below 86400 it is the hours, \<open>h\<close>, a space, the remaining minutes
  and \<open>m\<close>; otherwise the days, \<open>d\<close>, a space, the remaining hours and \<open>h\<close>.
  \<open>_calculate_uptime\<close> returns that text for a timestamp in which the clock finds such an
  elapsed time.  3725 seconds give \<open>1h 2m\<close>, 45 seconds \<open>45s\<close> and 90000 seconds \<open>1d 1h\<close>.
\<close>

theorem uptime_buckets:
  "(0 \<le> m \<and> int_of_float (Float m e) = Inr s \<longrightarrow>
      uptime_text (Float m e) = Inr (uptime_spec s) \<and>
      (timestamp_str \<noteq> [] \<and> timestamp_str \<noteq> ''n/a'' \<and> clk timestamp_str = Elapsed (Float m e) \<longrightarrow>
         calculate_uptime clk timestamp_str = uptime_spec s)) \<and>
   uptime_text (float_lit 3725) = Inr ''1h 2m'' \<and>
   uptime_text (float_lit 45) = Inr ''45s'' \<and>
   uptime_text (float_lit 90000) = Inr ''1d 1h''"
proof -
  have a: "uptime_text (float_lit 3725) = Inr ''1h 2m''"
    by (simp add: uptime_text_def float_eval show_eval)
  have b: "uptime_text (float_lit 45) = Inr ''45s''"
    by (simp add: uptime_text_def float_eval show_eval)
  have c: "uptime_text (float_lit 90000) = Inr ''1d 1h''"
    by (simp add: uptime_text_def float_eval show_eval)
  have d: "calculate_uptime clk timestamp_str = uptime_spec s"
    if "0 \<le> m" "int_of_float (Float m e) = Inr s" "timestamp_str \<noteq> []"
      "timestamp_str \<noteq> ''n/a''" "clk timestamp_str = Elapsed (Float m e)"
    using that uptime_text_nonneg [OF that(1,2)] by (simp add: calculate_uptime_def)
  from a b c d uptime_text_nonneg show ?thesis
    by blast
qed

theorem uptime_buckets_witness:
  "int_of_float (Float 7450 (- 1)) = Inr 3725 \<and>
   uptime_text (Float 7450 (- 1)) = Inr ''1h 2m'' \<and>
   calculate_uptime (\<lambda>ts. Elapsed (Float 7450 (- 1))) ''Mon 2024-01-01 10:00:00 UTC'' = ''1h 2m''"
proof -
  let ?clk = "\<lambda>ts :: string. Elapsed (Float 7450 (- 1))"
  have h: "(0::int) \<le> 7450 \<and> int_of_float (Float 7450 (- 1)) = Inr 3725"
    by simp
  have k: "''Mon 2024-01-01 10:00:00 UTC'' \<noteq> [] \<and> ''Mon 2024-01-01 10:00:00 UTC'' \<noteq> ''n/a'' \<and>
      ?clk ''Mon 2024-01-01 10:00:00 UTC'' = Elapsed (Float 7450 (- 1))"
    by simp
  have u: "uptime_spec 3725 = ''1h 2m''"
    by (simp add: uptime_spec_def show_eval)
  from uptime_buckets [of 7450 "- 1" 3725 "''Mon 2024-01-01 10:00:00 UTC''" ?clk] h k
  have "uptime_text (Float 7450 (- 1)) = Inr (uptime_spec 3725) \<and>
        calculate_uptime ?clk ''Mon 2024-01-01 10:00:00 UTC'' = uptime_spec 3725"
    by blast
  with h u show ?thesis
    by simp
qed

end
